theory Spec2Isabelle
  imports Complex_Main
begin

section \<open>MiniTrello: the entity store\<close>

text \<open>
  The store is the Prisma client of the backend. Every model is a table, kept as the list
  of its rows in insertion order. Identifiers are Prisma's string ids. The models and
  their foreign keys are those of the low-level design document: List(boardId -> Board),
  Card(listId -> List, boardId -> Board), Comment(cardId -> Card, authorId -> User),
  CardAssignment(cardId -> Card, userId -> User),
  Activity(boardId -> Board, userId -> User). Generated columns (the ids of comments and
  activities, createdAt, updatedAt) are never read by the handlers below and are left out.
\<close>

type_synonym id = string

record board =
  board_id :: id
  board_title :: string
  board_ownerId :: id

record boardMember =
  bm_boardId :: id
  bm_userId :: id
  bm_role :: string

record listRow =
  list_id :: id
  list_title :: string
  list_position :: real
  list_boardId :: id

record card =
  card_id :: id
  card_title :: string
  card_position :: real
  card_listId :: id
  card_boardId :: id

record comment =
  comment_text :: string
  comment_cardId :: id
  comment_authorId :: id

record cardAssignment =
  ca_cardId :: id
  ca_userId :: id

record activity =
  act_type :: string
  act_boardId :: id
  act_userId :: id
  act_data :: "(string \<times> string) list"

record store =
  users :: "id list"
  boards :: "board list"
  boardMembers :: "boardMember list"
  board_lists :: "listRow list"
  cards :: "card list"
  comments :: "comment list"
  cardAssignments :: "cardAssignment list"
  activities :: "activity list"

text \<open>
  What a Prisma call throws: P2025 (the record to update or delete does not exist), P2003
  (a foreign key constraint fails), a client-side validation error (a unique \<open>where\<close>
  with no value), and the JavaScript TypeError of reading a property of \<open>null\<close>.
\<close>

datatype prisma_error = P2025 | P2003 | PrismaValidation | TypeError

definition card_update :: "store \<Rightarrow> id \<Rightarrow> id \<Rightarrow> real \<Rightarrow> prisma_error + (card \<times> store)" where
  \<comment> \<open>\<open>prisma.card.update({where: {id}, data: {listId, position}})\<close>\<close>
  "card_update st cid lid pos =
     (case find (\<lambda>c. card_id c = cid) (cards st) of
        None \<Rightarrow> Inl P2025
      | Some c \<Rightarrow>
          if \<not> list_ex (\<lambda>l. list_id l = lid) (board_lists st) then Inl P2003
          else
            (let c' = c\<lparr>card_listId := lid, card_position := pos\<rparr>
             in Inr (c', st\<lparr>cards := map (\<lambda>x. if card_id x = cid then c' else x) (cards st)\<rparr>)))"

definition list_findUnique :: "store \<Rightarrow> id option \<Rightarrow> prisma_error + listRow option" where
  \<comment> \<open>\<open>prisma.list.findUnique({where: {id}})\<close>; the id is \<open>None\<close> when the caller passed \<open>undefined\<close>\<close>
  "list_findUnique st lid =
     (case lid of
        None \<Rightarrow> Inl PrismaValidation
      | Some i \<Rightarrow> Inr (find (\<lambda>l. list_id l = i) (board_lists st)))"

definition activity_create :: "store \<Rightarrow> activity \<Rightarrow> prisma_error + store" where
  \<comment> \<open>\<open>prisma.activity.create({data})\<close>\<close>
  "activity_create st a =
     (if \<not> list_ex (\<lambda>b. board_id b = act_boardId a) (boards st) then Inl P2003
      else if act_userId a \<notin> set (users st) then Inl P2003
      else Inr (st\<lparr>activities := activities st @ [a]\<rparr>))"

definition comment_create :: "store \<Rightarrow> comment \<Rightarrow> prisma_error + (comment \<times> store)" where
  \<comment> \<open>\<open>prisma.comment.create({data})\<close>\<close>
  "comment_create st c =
     (if \<not> list_ex (\<lambda>x. card_id x = comment_cardId c) (cards st) then Inl P2003
      else if comment_authorId c \<notin> set (users st) then Inl P2003
      else Inr (c, st\<lparr>comments := comments st @ [c]\<rparr>))"

definition hasAccess :: "store \<Rightarrow> id \<Rightarrow> id \<Rightarrow> bool" where
  \<comment> \<open>the board access query of routes/cards.js:
      \<open>board.findFirst({where: {id, OR: [{ownerId}, {members: {some: {userId}}}]}})\<close>\<close>
  "hasAccess st bid uid =
     list_ex (\<lambda>b. board_id b = bid \<and>
                (board_ownerId b = uid \<or>
                 list_ex (\<lambda>m. bm_boardId m = board_id b \<and> bm_userId m = uid) (boardMembers st)))
       (boards st)"

section \<open>The REST handler that deletes a board\<close>

text \<open>
  The Prisma schema file is not among the sources, so what a delete does to the rows
  that refer to the deleted row is a parameter: for each relation a delete can meet,
  the schema either restricts (the delete fails with P2003 while such rows exist;
  Prisma's NoAction behaves alike here) or cascades (the referring rows are deleted with
  it). The four relations into Board share one action. Each Prisma call is a
  statement of its own: there is no transaction around the handler.
\<close>

datatype ref_action = Restrict | Cascade

record schema =
  comment_card :: ref_action
  assignment_card :: ref_action
  card_list :: ref_action
  board_rows :: ref_action

definition delete_cards :: "schema \<Rightarrow> store \<Rightarrow> (card \<Rightarrow> bool) \<Rightarrow> prisma_error + store" where
  \<comment> \<open>deleting the cards that satisfy \<open>P\<close>, with the comments and assignments on them\<close>
  "delete_cards sch st P =
     (let ids = map card_id (filter P (cards st))
      in if comment_card sch = Restrict \<and>
            list_ex (\<lambda>c. comment_cardId c \<in> set ids) (comments st) then Inl P2003
         else if assignment_card sch = Restrict \<and>
            list_ex (\<lambda>a. ca_cardId a \<in> set ids) (cardAssignments st) then Inl P2003
         else Inr (st\<lparr>cards := filter (\<lambda>c. \<not> P c) (cards st),
                      comments := filter (\<lambda>c. comment_cardId c \<notin> set ids) (comments st),
                      cardAssignments :=
                        filter (\<lambda>a. ca_cardId a \<notin> set ids) (cardAssignments st)\<rparr>))"

definition delete_lists :: "schema \<Rightarrow> store \<Rightarrow> (listRow \<Rightarrow> bool) \<Rightarrow> prisma_error + store" where
  \<comment> \<open>deleting the lists that satisfy \<open>P\<close>, with the cards in them\<close>
  "delete_lists sch st P =
     (let ids = map list_id (filter P (board_lists st))
      in if card_list sch = Restrict \<and>
            list_ex (\<lambda>c. card_listId c \<in> set ids) (cards st) then Inl P2003
         else
           (case delete_cards sch st (\<lambda>c. card_listId c \<in> set ids) of
              Inl e \<Rightarrow> Inl e
            | Inr st1 \<Rightarrow>
                Inr (st1\<lparr>board_lists := filter (\<lambda>l. \<not> P l) (board_lists st1)\<rparr>)))"

definition card_deleteMany :: "schema \<Rightarrow> store \<Rightarrow> id \<Rightarrow> prisma_error + store" where
  \<comment> \<open>\<open>prisma.card.deleteMany({where: {boardId}})\<close>\<close>
  "card_deleteMany sch st bid = delete_cards sch st (\<lambda>c. card_boardId c = bid)"

definition list_deleteMany :: "schema \<Rightarrow> store \<Rightarrow> id \<Rightarrow> prisma_error + store" where
  \<comment> \<open>\<open>prisma.list.deleteMany({where: {boardId}})\<close>\<close>
  "list_deleteMany sch st bid = delete_lists sch st (\<lambda>l. list_boardId l = bid)"

definition boardMember_deleteMany :: "store \<Rightarrow> id \<Rightarrow> store" where
  \<comment> \<open>\<open>prisma.boardMember.deleteMany({where: {boardId}})\<close>; no relation points at a member row\<close>
  "boardMember_deleteMany st bid =
     st\<lparr>boardMembers := filter (\<lambda>m. bm_boardId m \<noteq> bid) (boardMembers st)\<rparr>"

definition activity_deleteMany :: "store \<Rightarrow> id \<Rightarrow> store" where
  \<comment> \<open>\<open>prisma.activity.deleteMany({where: {boardId}})\<close>; no relation points at an activity row\<close>
  "activity_deleteMany st bid =
     st\<lparr>activities := filter (\<lambda>a. act_boardId a \<noteq> bid) (activities st)\<rparr>"

definition board_delete :: "schema \<Rightarrow> store \<Rightarrow> id \<Rightarrow> id \<Rightarrow> prisma_error + store" where
  \<comment> \<open>\<open>prisma.board.delete({where: {id, ownerId}})\<close>\<close>
  "board_delete sch st bid uid =
     (if \<not> list_ex (\<lambda>b. board_id b = bid \<and> board_ownerId b = uid) (boards st) then Inl P2025
      else if board_rows sch = Restrict \<and>
              (list_ex (\<lambda>c. card_boardId c = bid) (cards st) \<or>
               list_ex (\<lambda>l. list_boardId l = bid) (board_lists st) \<or>
               list_ex (\<lambda>m. bm_boardId m = bid) (boardMembers st) \<or>
               list_ex (\<lambda>a. act_boardId a = bid) (activities st)) then Inl P2003
      else
        (case card_deleteMany sch st bid of
           Inl e \<Rightarrow> Inl e
         | Inr st1 \<Rightarrow>
             (case list_deleteMany sch st1 bid of
                Inl e \<Rightarrow> Inl e
              | Inr st2 \<Rightarrow>
                  Inr ((activity_deleteMany (boardMember_deleteMany st2 bid) bid)
                         \<lparr>boards := filter (\<lambda>b. board_id b \<noteq> bid) (boards st2)\<rparr>))))"

datatype response = Response nat string

definition delete_failed :: "prisma_error \<Rightarrow> response" where
  \<comment> \<open>the catch block of the handler\<close>
  "delete_failed e =
     (if e = P2025 then Response 404 ''Board not found or you are not the owner''
      else Response 500 ''Failed to delete board'')"

definition delete_board :: "schema \<Rightarrow> store \<Rightarrow> id \<Rightarrow> id \<Rightarrow> store \<times> response" where
  \<comment> \<open>the handler of \<open>app.delete('/api/boards/:boardId', ...)\<close>: the four \<open>deleteMany\<close>
      calls, then the owner-scoped delete of the board row; what an earlier call deleted
      stays deleted when a later call throws\<close>
  "delete_board sch st boardId userId =
     (case card_deleteMany sch st boardId of
        Inl e \<Rightarrow> (st, delete_failed e)
      | Inr st1 \<Rightarrow>
          (case list_deleteMany sch st1 boardId of
             Inl e \<Rightarrow> (st1, delete_failed e)
           | Inr st2 \<Rightarrow>
               (let st3 = boardMember_deleteMany st2 boardId;
                    st4 = activity_deleteMany st3 boardId
                in case board_delete sch st4 boardId userId of
                     Inl e \<Rightarrow> (st4, delete_failed e)
                   | Inr st5 \<Rightarrow> (st5, Response 200 ''Board deleted successfully''))))"

text \<open>
  The route runs \<open>authenticateToken\<close> first. What \<open>jwt.verify\<close> makes of the
  Authorization header is the credential: no token, a token that does not verify, or the
  user id of a verified token.
\<close>

datatype credential = NoToken | BadToken | Token id

definition authenticateToken :: "store \<Rightarrow> credential \<Rightarrow> response + id" where
  "authenticateToken st cred =
     (case cred of
        NoToken \<Rightarrow> Inl (Response 401 ''Access token required'')
      | BadToken \<Rightarrow> Inl (Response 403 ''Invalid or expired token'')
      | Token uid \<Rightarrow>
          if uid \<in> set (users st) then Inr uid else Inl (Response 401 ''User not found''))"

definition delete_board_route :: "schema \<Rightarrow> store \<Rightarrow> credential \<Rightarrow> id \<Rightarrow> store \<times> response" where
  "delete_board_route sch st cred boardId =
     (case authenticateToken st cred of
        Inl r \<Rightarrow> (st, r)
      | Inr userId \<Rightarrow> delete_board sch st boardId userId)"

section \<open>The socket handlers\<close>

text \<open>
  A connection is a socket.io socket: its id and the user that the handshake middleware
  attached to it (\<open>socket.user = {id: decoded.userId}\<close>). Rooms map a room name to the
  sockets that joined it. \<open>socket.to(room).emit(ev)\<close> delivers \<open>ev\<close> to every socket of the
  room except the sender; \<open>socket.emit(ev)\<close> delivers to the sender alone. A handler
  returns the new state and the list of what it emitted, in order. The \<open>timestamp\<close> field
  of the emitted payloads (\<open>new Date()\<close>) and the console logs are left out.
\<close>

type_synonym sid = string

record socket =
  sock_id :: sid
  sock_user :: id

type_synonym rooms = "string \<Rightarrow> sid set"

datatype event =
    User_joined id
  | User_left id
  | Card_moved card id
  | New_comment comment id
  | User_typing id id bool
  | Error_event string

datatype emitted = Broadcast "sid set" event | ToSelf event

definition room :: "id \<Rightarrow> string" where
  \<comment> \<open>the template string \<open>board:${boardId}\<close>\<close>
  "room boardId = ''board:'' @ boardId"

definition to_room :: "rooms \<Rightarrow> socket \<Rightarrow> string \<Rightarrow> event \<Rightarrow> emitted" where
  \<comment> \<open>\<open>socket.to(r).emit(ev)\<close>\<close>
  "to_room rm s r ev = Broadcast (rm r - {sock_id s}) ev"

definition join_board :: "rooms \<Rightarrow> socket \<Rightarrow> id \<Rightarrow> rooms \<times> emitted list" where
  "join_board rm s boardId =
     (let rm' = rm(room boardId := insert (sock_id s) (rm (room boardId)))
      in (rm', [to_room rm' s (room boardId) (User_joined (sock_user s))]))"

definition leave_board :: "rooms \<Rightarrow> socket \<Rightarrow> id \<Rightarrow> rooms \<times> emitted list" where
  "leave_board rm s boardId =
     (let rm' = rm(room boardId := rm (room boardId) - {sock_id s})
      in (rm', [to_room rm' s (room boardId) (User_left (sock_user s))]))"

record card_moved_data =
  cm_cardId :: id
  cm_fromListId :: "id option"
  cm_toListId :: id
  cm_newPosition :: real
  cm_boardId :: id

record new_comment_data =
  nc_cardId :: id
  nc_text :: string
  nc_boardId :: id

record user_typing_data =
  ut_boardId :: id
  ut_cardId :: id
  ut_isTyping :: bool

definition log_card_moved :: "store \<Rightarrow> socket \<Rightarrow> card_moved_data \<Rightarrow> card \<Rightarrow> prisma_error + store" where
  \<comment> \<open>the "Log activity" part of the card-moved handler: the two list reads, then
      \<open>activity.create\<close>; reading \<open>title\<close> of a list that was not found throws\<close>
  "log_card_moved st s d c =
     (case list_findUnique st (cm_fromListId d) of
        Inl e \<Rightarrow> Inl e
      | Inr fromList \<Rightarrow>
          (case list_findUnique st (Some (cm_toListId d)) of
             Inl e \<Rightarrow> Inl e
           | Inr toList \<Rightarrow>
               (case fromList of
                  None \<Rightarrow> Inl TypeError
                | Some fromL \<Rightarrow>
                    (case toList of
                       None \<Rightarrow> Inl TypeError
                     | Some toL \<Rightarrow>
                         activity_create st
                           \<lparr>act_type = ''card_moved'',
                            act_boardId = cm_boardId d,
                            act_userId = sock_user s,
                            act_data = [(''cardTitle'', card_title c),
                                        (''fromList'', list_title fromL),
                                        (''toList'', list_title toL)]\<rparr>))))"

definition card_moved :: "store \<Rightarrow> rooms \<Rightarrow> socket \<Rightarrow> card_moved_data \<Rightarrow> store \<times> emitted list" where
  \<comment> \<open>the card-moved handler: update, broadcast, log; one catch around all three\<close>
  "card_moved st rm s d =
     (case card_update st (cm_cardId d) (cm_toListId d) (cm_newPosition d) of
        Inl e \<Rightarrow> (st, [ToSelf (Error_event ''Failed to move card'')])
      | Inr (c, st1) \<Rightarrow>
          (let sent = to_room rm s (room (cm_boardId d)) (Card_moved c (sock_user s))
           in case log_card_moved st1 s d c of
                Inl e \<Rightarrow> (st1, [sent, ToSelf (Error_event ''Failed to move card'')])
              | Inr st2 \<Rightarrow> (st2, [sent])))"

definition new_comment :: "store \<Rightarrow> rooms \<Rightarrow> socket \<Rightarrow> new_comment_data \<Rightarrow> store \<times> emitted list" where
  \<comment> \<open>the new-comment handler: create, broadcast\<close>
  "new_comment st rm s d =
     (case comment_create st
             \<lparr>comment_text = nc_text d, comment_cardId = nc_cardId d,
              comment_authorId = sock_user s\<rparr> of
        Inl e \<Rightarrow> (st, [ToSelf (Error_event ''Failed to add comment'')])
      | Inr (c, st1) \<Rightarrow>
          (st1, [to_room rm s (room (nc_boardId d)) (New_comment c (sock_user s))]))"

definition user_typing :: "rooms \<Rightarrow> socket \<Rightarrow> user_typing_data \<Rightarrow> emitted list" where
  \<comment> \<open>the user-typing handler: broadcast only, the store is not an argument\<close>
  "user_typing rm s d =
     [to_room rm s (room (ut_boardId d))
        (User_typing (sock_user s) (ut_cardId d) (ut_isTyping d))]"

definition leaveAll :: "rooms \<Rightarrow> socket \<Rightarrow> rooms" where
  \<comment> \<open>socket.io itself removes a closing socket from all its rooms before it fires
      \<open>disconnect\<close>\<close>
  "leaveAll rm s = (\<lambda>r. rm r - {sock_id s})"

definition disconnect :: "rooms \<Rightarrow> socket \<Rightarrow> rooms \<times> emitted list" where
  \<comment> \<open>the disconnect handler only logs to the console\<close>
  "disconnect rm s = (leaveAll rm s, [])"

text \<open>
  Both asynchronous handlers destructure their payload before the \<open>try\<close>. An event that
  carries no payload (\<open>undefined\<close> or \<open>null\<close>, here \<open>None\<close>) makes that line throw a
  TypeError that no catch sees: the handler ends with the exception and emits nothing.
\<close>

definition on_card_moved ::
  "store \<Rightarrow> rooms \<Rightarrow> socket \<Rightarrow> card_moved_data option \<Rightarrow> prisma_error + (store \<times> emitted list)" where
  \<comment> \<open>\<open>socket.on('card-moved', async (data) => { const {...} = data; try {...} catch {...} })\<close>\<close>
  "on_card_moved st rm s data =
     (case data of
        None \<Rightarrow> Inl TypeError
      | Some d \<Rightarrow> Inr (card_moved st rm s d))"

definition on_new_comment ::
  "store \<Rightarrow> rooms \<Rightarrow> socket \<Rightarrow> new_comment_data option \<Rightarrow> prisma_error + (store \<times> emitted list)" where
  \<comment> \<open>\<open>socket.on('new-comment', async (data) => { const {...} = data; try {...} catch {...} })\<close>\<close>
  "on_new_comment st rm s data =
     (case data of
        None \<Rightarrow> Inl TypeError
      | Some d \<Rightarrow> Inr (new_comment st rm s d))"

definition current_list_title :: "store \<Rightarrow> id \<Rightarrow> string option" where
  \<comment> \<open>the read that PUT /api/cards/:cardId of routes/cards.js makes before its update: the
      card by id, then the list the card is in\<close>
  "current_list_title st cid =
     (case find (\<lambda>c. card_id c = cid) (cards st) of
        None \<Rightarrow> None
      | Some c \<Rightarrow> map_option list_title (find (\<lambda>l. list_id l = card_listId c) (board_lists st)))"

section \<open>The position allocator\<close>

text \<open>
  Modelled from the spec: the position allocator. The backend stores the position a client
  sends; the allocator itself runs in the client, whose code is not among the sources.
  Section 4.5 of the spec: the midpoint between two keys, \<open>b - 1\<close> with no lower bound,
  \<open>a + 1\<close> with no upper bound, the baseline 1 for an empty list. Keys are the ordered
  real numbers of the spec's data model.
\<close>

definition allocate :: "real option \<Rightarrow> real option \<Rightarrow> real" where
  "allocate lo hi =
     (case (lo, hi) of
        (None, None) \<Rightarrow> 1
      | (None, Some b) \<Rightarrow> b - 1
      | (Some a, None) \<Rightarrow> a + 1
      | (Some a, Some b) \<Rightarrow> (a + b) / 2)"

section \<open>An example database\<close>

definition db0 :: store where
  "db0 = \<lparr>users = [''alice'', ''bob'', ''mallory''],
          boards = [\<lparr>board_id = ''42'', board_title = ''Roadmap'', board_ownerId = ''alice''\<rparr>],
          boardMembers = [\<lparr>bm_boardId = ''42'', bm_userId = ''alice'', bm_role = ''owner''\<rparr>,
                          \<lparr>bm_boardId = ''42'', bm_userId = ''bob'', bm_role = ''member''\<rparr>],
          board_lists = [\<lparr>list_id = ''l1'', list_title = ''To Do'', list_position = 1, list_boardId = ''42''\<rparr>,
                   \<lparr>list_id = ''l2'', list_title = ''In Progress'', list_position = 2, list_boardId = ''42''\<rparr>,
                   \<lparr>list_id = ''l3'', list_title = ''Done'', list_position = 3, list_boardId = ''42''\<rparr>],
          cards = [\<lparr>card_id = ''c1'', card_title = ''Write report'', card_position = 1,
                    card_listId = ''l1'', card_boardId = ''42''\<rparr>],
          comments = [],
          cardAssignments = [],
          activities = [\<lparr>act_type = ''card_created'', act_boardId = ''42'', act_userId = ''alice'',
                         act_data = [(''cardTitle'', ''Write report''), (''listTitle'', ''To Do'')]\<rparr>]\<rparr>"

definition alice :: socket where
  "alice = \<lparr>sock_id = ''sA'', sock_user = ''alice''\<rparr>"

definition mallory :: socket where
  "mallory = \<lparr>sock_id = ''sM'', sock_user = ''mallory''\<rparr>"

definition rooms0 :: rooms where
  \<comment> \<open>the sockets of alice and bob are in the room of board 42\<close>
  "rooms0 = (\<lambda>r. {})(''board:42'' := {''sA'', ''sB''})"

definition rooms1 :: rooms where
  \<comment> \<open>only bob's socket is in the room of board 42\<close>
  "rooms1 = (\<lambda>r. {})(''board:42'' := {''sB''})"

definition move_ok :: card_moved_data where
  \<comment> \<open>card c1 from "To Do" to "In Progress", at the midpoint of 1 and 2\<close>
  "move_ok = \<lparr>cm_cardId = ''c1'', cm_fromListId = Some ''l1'', cm_toListId = ''l2'',
              cm_newPosition = 3 / 2, cm_boardId = ''42''\<rparr>"

definition moved_card :: card where
  "moved_card = \<lparr>card_id = ''c1'', card_title = ''Write report'', card_position = 3 / 2,
                  card_listId = ''l2'', card_boardId = ''42''\<rparr>"

definition rooms2 :: rooms where
  \<comment> \<open>the sockets of alice and bob joined the room of a board 99 that does not exist\<close>
  "rooms2 = (\<lambda>r. {})(''board:99'' := {''sA'', ''sB''})"





lemmas handler_defs =
  card_moved_def card_update_def log_card_moved_def list_findUnique_def activity_create_def
  comment_create_def new_comment_def user_typing_def to_room_def room_def leave_board_def
  join_board_def disconnect_def leaveAll_def Let_def

lemmas example_defs =
  db0_def rooms0_def rooms1_def alice_def mallory_def move_ok_def moved_card_def

section \<open>Board access on the socket interface\<close>

text \<open>
  The handlers read no membership row: the board members of the store can be replaced
  by any others without changing what card-moved and new-comment do.
\<close>

lemma card_moved_ignores_membership:
  "card_moved (st\<lparr>boardMembers := ms\<rparr>) rm s d =
     (case card_moved st rm s d of (st', out) \<Rightarrow> (st'\<lparr>boardMembers := ms\<rparr>, out))"
  by (auto simp: card_moved_def card_update_def log_card_moved_def list_findUnique_def
        activity_create_def Let_def split: sum.splits option.splits prod.splits)

lemma new_comment_ignores_membership:
  "new_comment (st\<lparr>boardMembers := ms\<rparr>) rm s d =
     (case new_comment st rm s d of (st', out) \<Rightarrow> (st'\<lparr>boardMembers := ms\<rparr>, out))"
  by (simp add: new_comment_def comment_create_def)

text \<open>
  C1. Every board-mutating socket event is to be refused with Forbidden unless the sender
  owns the board or is one of its members. The handlers make no such check: mallory, who
  neither owns board 42 nor is a member of it, moves card c1, adds a comment to it and
  signals typing, and each event is applied and broadcast to the room.
\<close>

theorem socket_events_without_board_access:
  "\<not> hasAccess db0 ''42'' ''mallory'' \<and>
   card_moved db0 rooms0 mallory move_ok =
     (db0\<lparr>cards := [moved_card],
          activities := activities db0 @
            [\<lparr>act_type = ''card_moved'', act_boardId = ''42'', act_userId = ''mallory'',
              act_data = [(''cardTitle'', ''Write report''), (''fromList'', ''To Do''),
                          (''toList'', ''In Progress'')]\<rparr>]\<rparr>,
      [Broadcast {''sA'', ''sB''} (Card_moved moved_card ''mallory'')]) \<and>
   new_comment db0 rooms0 mallory \<lparr>nc_cardId = ''c1'', nc_text = ''mine now'', nc_boardId = ''42''\<rparr> =
     (db0\<lparr>comments := [\<lparr>comment_text = ''mine now'', comment_cardId = ''c1'',
                          comment_authorId = ''mallory''\<rparr>]\<rparr>,
      [Broadcast {''sA'', ''sB''}
         (New_comment \<lparr>comment_text = ''mine now'', comment_cardId = ''c1'',
                        comment_authorId = ''mallory''\<rparr> ''mallory'')]) \<and>
   user_typing rooms0 mallory \<lparr>ut_boardId = ''42'', ut_cardId = ''c1'', ut_isTyping = True\<rparr> =
     [Broadcast {''sA'', ''sB''} (User_typing ''mallory'' ''c1'' True)]"
  by (simp add: hasAccess_def handler_defs example_defs)

section \<open>A mutation that fails\<close>

text \<open>
  alice moves card c1 and names a board 99 that does not exist. The card is updated and
  the move is broadcast to the room of board 99 before recording the activity fails and
  alice is sent the error event: the failed mutation has written to the store and has
  been broadcast.
\<close>

theorem card_moved_fails_after_write:
  "on_card_moved db0 rooms2 alice (Some (move_ok\<lparr>cm_boardId := ''99''\<rparr>)) =
     Inr (db0\<lparr>cards := [moved_card]\<rparr>,
          [Broadcast {''sB''} (Card_moved moved_card ''alice''),
           ToSelf (Error_event ''Failed to move card'')]) \<and>
   cards (db0\<lparr>cards := [moved_card]\<rparr>) \<noteq> cards db0"
  by (simp add: on_card_moved_def handler_defs example_defs rooms2_def)

text \<open>
  C2, as the handlers have it. A card-moved or new-comment mutation fails when its
  handler answers with the error event. Then no activity row is recorded and the error
  event goes to the sender alone. If the write itself failed (the card update, the
  comment insert: the only way new-comment fails), the store is as it was and nothing
  is broadcast; and a write that fails is always answered so. If card-moved fails after
  its write (a list lookup or the activity insert throws), the card update stays in the
  store and the move has been broadcast to the rest of the room before the error.
\<close>

theorem error_event_effects:
  "(on_card_moved st rm s data = Inr (st', out) \<and>
    ToSelf (Error_event ''Failed to move card'') \<in> set out \<longrightarrow>
      activities st' = activities st \<and>
      (\<exists>d. data = Some d \<and>
         ((\<exists>e. card_update st (cm_cardId d) (cm_toListId d) (cm_newPosition d) = Inl e) \<and>
          st' = st \<and> out = [ToSelf (Error_event ''Failed to move card'')] \<or>
          (\<exists>c e. card_update st (cm_cardId d) (cm_toListId d) (cm_newPosition d) = Inr (c, st') \<and>
                 log_card_moved st' s d c = Inl e \<and>
                 out = [Broadcast (rm (room (cm_boardId d)) - {sock_id s})
                          (Card_moved c (sock_user s)),
                        ToSelf (Error_event ''Failed to move card'')])))) \<and>
   (on_new_comment st rm s data' = Inr (st'', out') \<and>
    ToSelf (Error_event ''Failed to add comment'') \<in> set out' \<longrightarrow>
      st'' = st \<and> out' = [ToSelf (Error_event ''Failed to add comment'')]) \<and>
   (card_update st (cm_cardId p) (cm_toListId p) (cm_newPosition p) = Inl e1 \<longrightarrow>
      on_card_moved st rm s (Some p) = Inr (st, [ToSelf (Error_event ''Failed to move card'')])) \<and>
   (comment_create st \<lparr>comment_text = nc_text p', comment_cardId = nc_cardId p',
                        comment_authorId = sock_user s\<rparr> = Inl e2 \<longrightarrow>
      on_new_comment st rm s (Some p') =
        Inr (st, [ToSelf (Error_event ''Failed to add comment'')]))"
proof (intro conjI impI)
  assume h: "on_card_moved st rm s data = Inr (st', out) \<and>
             ToSelf (Error_event ''Failed to move card'') \<in> set out"
  then obtain d where d: "data = Some d" and r: "card_moved st rm s d = (st', out)"
    by (auto simp: on_card_moved_def split: option.splits)
  from r h show "activities st' = activities st"
    by (auto simp: card_moved_def card_update_def to_room_def Let_def
          split: sum.splits option.splits if_splits prod.splits)
  from r h have
    "(\<exists>e. card_update st (cm_cardId d) (cm_toListId d) (cm_newPosition d) = Inl e) \<and>
       st' = st \<and> out = [ToSelf (Error_event ''Failed to move card'')] \<or>
     (\<exists>c e. card_update st (cm_cardId d) (cm_toListId d) (cm_newPosition d) = Inr (c, st') \<and>
            log_card_moved st' s d c = Inl e \<and>
            out = [Broadcast (rm (room (cm_boardId d)) - {sock_id s})
                     (Card_moved c (sock_user s)),
                   ToSelf (Error_event ''Failed to move card'')])"
    by (auto simp: card_moved_def to_room_def Let_def split: sum.splits prod.splits)
  with d show "\<exists>d. data = Some d \<and>
         ((\<exists>e. card_update st (cm_cardId d) (cm_toListId d) (cm_newPosition d) = Inl e) \<and>
          st' = st \<and> out = [ToSelf (Error_event ''Failed to move card'')] \<or>
          (\<exists>c e. card_update st (cm_cardId d) (cm_toListId d) (cm_newPosition d) = Inr (c, st') \<and>
                 log_card_moved st' s d c = Inl e \<and>
                 out = [Broadcast (rm (room (cm_boardId d)) - {sock_id s})
                          (Card_moved c (sock_user s)),
                        ToSelf (Error_event ''Failed to move card'')]))"
    by blast
next
  assume "on_new_comment st rm s data' = Inr (st'', out') \<and>
          ToSelf (Error_event ''Failed to add comment'') \<in> set out'"
  then show "st'' = st"
    by (auto simp: on_new_comment_def new_comment_def to_room_def
          split: option.splits sum.splits prod.splits)
next
  assume "on_new_comment st rm s data' = Inr (st'', out') \<and>
          ToSelf (Error_event ''Failed to add comment'') \<in> set out'"
  then show "out' = [ToSelf (Error_event ''Failed to add comment'')]"
    by (auto simp: on_new_comment_def new_comment_def to_room_def
          split: option.splits sum.splits prod.splits)
next
  assume "card_update st (cm_cardId p) (cm_toListId p) (cm_newPosition p) = Inl e1"
  then show "on_card_moved st rm s (Some p) =
               Inr (st, [ToSelf (Error_event ''Failed to move card'')])"
    by (simp add: on_card_moved_def card_moved_def)
next
  assume "comment_create st \<lparr>comment_text = nc_text p', comment_cardId = nc_cardId p',
                        comment_authorId = sock_user s\<rparr> = Inl e2"
  then show "on_new_comment st rm s (Some p') =
               Inr (st, [ToSelf (Error_event ''Failed to add comment'')])"
    by (simp add: on_new_comment_def new_comment_def)
qed

theorem error_event_effects_witness:
  "on_card_moved db0 rooms2 alice (Some (move_ok\<lparr>cm_boardId := ''99''\<rparr>)) =
     Inr (db0\<lparr>cards := [moved_card]\<rparr>,
          [Broadcast {''sB''} (Card_moved moved_card ''alice''),
           ToSelf (Error_event ''Failed to move card'')]) \<and>
   activities (db0\<lparr>cards := [moved_card]\<rparr>) = activities db0 \<and>
   card_update db0 ''c1'' ''l2'' (3 / 2) = Inr (moved_card, db0\<lparr>cards := [moved_card]\<rparr>) \<and>
   card_update db0 ''zz'' ''l2'' (3 / 2) = Inl P2025 \<and>
   on_card_moved db0 rooms2 alice (Some (move_ok\<lparr>cm_cardId := ''zz''\<rparr>)) =
     Inr (db0, [ToSelf (Error_event ''Failed to move card'')]) \<and>
   comment_create db0 \<lparr>comment_text = ''hello'', comment_cardId = ''zz'',
                        comment_authorId = ''alice''\<rparr> = Inl P2003 \<and>
   on_new_comment db0 rooms2 alice
       (Some \<lparr>nc_cardId = ''zz'', nc_text = ''hello'', nc_boardId = ''42''\<rparr>) =
     Inr (db0, [ToSelf (Error_event ''Failed to add comment'')])"
proof -
  let ?late = "move_ok\<lparr>cm_boardId := ''99''\<rparr>"
  let ?lost = "move_ok\<lparr>cm_cardId := ''zz''\<rparr>"
  let ?note = "\<lparr>nc_cardId = ''zz'', nc_text = ''hello'', nc_boardId = ''42''\<rparr>"
  let ?out = "[Broadcast {''sB''} (Card_moved moved_card ''alice''),
               ToSelf (Error_event ''Failed to move card'')]"
  have h1: "on_card_moved db0 rooms2 alice (Some ?late) =
              Inr (db0\<lparr>cards := [moved_card]\<rparr>, ?out)"
    by (simp add: on_card_moved_def handler_defs example_defs rooms2_def)
  have h2: "ToSelf (Error_event ''Failed to move card'') \<in> set ?out"
    by simp
  have h3: "card_update db0 (cm_cardId ?lost) (cm_toListId ?lost) (cm_newPosition ?lost) =
              Inl P2025"
    by (simp add: card_update_def db0_def move_ok_def)
  have h4: "comment_create db0 \<lparr>comment_text = nc_text ?note, comment_cardId = nc_cardId ?note,
                        comment_authorId = sock_user alice\<rparr> = Inl P2003"
    by (simp add: comment_create_def db0_def)
  have h5: "on_new_comment db0 rooms2 alice (Some ?note) =
              Inr (db0, [ToSelf (Error_event ''Failed to add comment'')])"
    by (simp add: on_new_comment_def new_comment_def comment_create_def db0_def alice_def)
  have h6: "ToSelf (Error_event ''Failed to add comment'') \<in>
              set [ToSelf (Error_event ''Failed to add comment'')]"
    by simp
  show ?thesis
    using h1 h2 h3 h4 h5 h6
      error_event_effects [of db0 rooms2 alice "Some ?late" "db0\<lparr>cards := [moved_card]\<rparr>" ?out
        "Some ?note" db0 "[ToSelf (Error_event ''Failed to add comment'')]" ?lost P2025 ?note P2003]
    by (simp add: card_update_def Let_def example_defs)
qed

section \<open>Activity rows\<close>

text \<open>
  A move that ends without an error event has appended exactly one activity, of type
  \<open>card_moved\<close>, for the payload's board and the sender.
\<close>

lemma card_moved_accepted_one_activity:
  assumes "card_moved st rm s d = (st', out)"
    and "ToSelf (Error_event ''Failed to move card'') \<notin> set out"
  shows "\<exists>a. activities st' = activities st @ [a] \<and> act_type a = ''card_moved'' \<and>
             act_boardId a = cm_boardId d \<and> act_userId a = sock_user s"
  using assms
  by (auto simp: card_moved_def card_update_def log_card_moved_def list_findUnique_def
        activity_create_def Let_def split: sum.splits option.splits if_splits prod.splits)

text \<open>The new-comment handler never touches the activity table.\<close>

lemma new_comment_keeps_activities:
  "activities (fst (new_comment st rm s d)) = activities st"
  by (simp add: new_comment_def comment_create_def)

text \<open>
  C3. Every accepted mutation is to append exactly one activity row of its type, except
  the typing signal. The new-comment handler appends none: alice, the owner of board 42,
  comments on card c1; the comment is stored and broadcast, and the activity table is
  what it was.
\<close>

theorem new_comment_appends_no_activity:
  "new_comment db0 rooms0 alice
       \<lparr>nc_cardId = ''c1'', nc_text = ''Looks good'', nc_boardId = ''42''\<rparr> =
     (db0\<lparr>comments := [\<lparr>comment_text = ''Looks good'', comment_cardId = ''c1'',
                          comment_authorId = ''alice''\<rparr>]\<rparr>,
      [Broadcast {''sB''}
         (New_comment \<lparr>comment_text = ''Looks good'', comment_cardId = ''c1'',
                        comment_authorId = ''alice''\<rparr> ''alice'')]) \<and>
   activities (fst (new_comment db0 rooms0 alice
       \<lparr>nc_cardId = ''c1'', nc_text = ''Looks good'', nc_boardId = ''42''\<rparr>)) = activities db0"
  by (simp add: handler_defs example_defs)

section \<open>The from-list side of a move\<close>

text \<open>
  The activity of a move names the list that the payload's \<open>fromListId\<close> names, not the
  list the card was in: card c1 is in "To Do", the payload says it comes from l3, and the
  activity records "Done".
\<close>

theorem card_moved_from_list_not_read_back:
  "current_list_title db0 ''c1'' = Some ''To Do'' \<and>
   card_moved db0 rooms0 alice (move_ok\<lparr>cm_fromListId := Some ''l3''\<rparr>) =
     (db0\<lparr>cards := [moved_card],
          activities := activities db0 @
            [\<lparr>act_type = ''card_moved'', act_boardId = ''42'', act_userId = ''alice'',
              act_data = [(''cardTitle'', ''Write report''), (''fromList'', ''Done''),
                          (''toList'', ''In Progress'')]\<rparr>]\<rparr>,
      [Broadcast {''sB''} (Card_moved moved_card ''alice'')])"
  by (simp add: current_list_title_def handler_defs example_defs)

text \<open>
  C4, as the handler has it. Whenever card-moved records an activity, the payload carried
  a \<open>fromListId\<close>, that id names a list of the store, and the activity is the one
  \<open>card_moved\<close> row whose \<open>fromList\<close> is the title of that list, whose \<open>toList\<close> is the
  title of the target list and whose \<open>cardTitle\<close> is the title of the moved card. The
  card's own list before the move is not read.
\<close>

theorem card_moved_activity_from_payload:
  assumes "card_moved st rm s d = (st', out)" and "activities st' \<noteq> activities st"
  shows "\<exists>i fromL toL c.
           cm_fromListId d = Some i \<and>
           find (\<lambda>l. list_id l = i) (board_lists st) = Some fromL \<and>
           find (\<lambda>l. list_id l = cm_toListId d) (board_lists st) = Some toL \<and>
           find (\<lambda>c. card_id c = cm_cardId d) (cards st) = Some c \<and>
           activities st' = activities st @
             [\<lparr>act_type = ''card_moved'', act_boardId = cm_boardId d, act_userId = sock_user s,
               act_data = [(''cardTitle'', card_title c), (''fromList'', list_title fromL),
                           (''toList'', list_title toL)]\<rparr>]"
  using assms
  by (auto simp: card_moved_def card_update_def log_card_moved_def list_findUnique_def
        activity_create_def Let_def split: sum.splits option.splits if_splits prod.splits)

theorem card_moved_activity_from_payload_witness:
  "card_moved db0 rooms0 alice (move_ok\<lparr>cm_fromListId := Some ''l3''\<rparr>) =
     (db0\<lparr>cards := [moved_card],
          activities := activities db0 @
            [\<lparr>act_type = ''card_moved'', act_boardId = ''42'', act_userId = ''alice'',
              act_data = [(''cardTitle'', ''Write report''), (''fromList'', ''Done''),
                          (''toList'', ''In Progress'')]\<rparr>]\<rparr>,
      [Broadcast {''sB''} (Card_moved moved_card ''alice'')]) \<and>
   (\<exists>i fromL toL c.
      Some ''l3'' = Some i \<and>
      find (\<lambda>l. list_id l = i) (board_lists db0) = Some fromL \<and>
      find (\<lambda>l. list_id l = ''l2'') (board_lists db0) = Some toL \<and>
      find (\<lambda>c. card_id c = ''c1'') (cards db0) = Some c \<and>
      activities db0 @
        [\<lparr>act_type = ''card_moved'', act_boardId = ''42'', act_userId = ''alice'',
          act_data = [(''cardTitle'', ''Write report''), (''fromList'', ''Done''),
                      (''toList'', ''In Progress'')]\<rparr>] =
      activities db0 @
        [\<lparr>act_type = ''card_moved'', act_boardId = ''42'', act_userId = ''alice'',
          act_data = [(''cardTitle'', card_title c), (''fromList'', list_title fromL),
                      (''toList'', list_title toL)]\<rparr>])"
proof -
  let ?d = "move_ok\<lparr>cm_fromListId := Some ''l3''\<rparr>"
  let ?st' = "db0\<lparr>cards := [moved_card],
          activities := activities db0 @
            [\<lparr>act_type = ''card_moved'', act_boardId = ''42'', act_userId = ''alice'',
              act_data = [(''cardTitle'', ''Write report''), (''fromList'', ''Done''),
                          (''toList'', ''In Progress'')]\<rparr>]\<rparr>"
  have h1: "card_moved db0 rooms0 alice ?d =
              (?st', [Broadcast {''sB''} (Card_moved moved_card ''alice'')])"
    by (simp add: handler_defs example_defs)
  have h2: "activities ?st' \<noteq> activities db0"
    by simp
  show ?thesis
    using h1 card_moved_activity_from_payload [OF h1 h2] by (simp add: move_ok_def alice_def)
qed

section \<open>Comment text\<close>

text \<open>
  A comment whose text is empty is stored and broadcast like any other; no error event
  is sent.
\<close>

theorem new_comment_empty_text_accepted:
  "new_comment db0 rooms0 alice \<lparr>nc_cardId = ''c1'', nc_text = [], nc_boardId = ''42''\<rparr> =
     (db0\<lparr>comments := [\<lparr>comment_text = [], comment_cardId = ''c1'',
                          comment_authorId = ''alice''\<rparr>]\<rparr>,
      [Broadcast {''sB''}
         (New_comment \<lparr>comment_text = [], comment_cardId = ''c1'',
                        comment_authorId = ''alice''\<rparr> ''alice'')])"
  by (simp add: handler_defs example_defs)

text \<open>
  C5, as the handler has it. The text of a comment is not validated: whatever it is, also
  empty or blank, when the card and the author exist the comment row is written with the
  text as it was sent and new-comment is broadcast to the rest of the room; no error event
  is emitted.
\<close>

theorem new_comment_any_text:
  assumes "list_ex (\<lambda>x. card_id x = nc_cardId d) (cards st)"
    and "sock_user s \<in> set (users st)"
  shows "new_comment st rm s d =
           (st\<lparr>comments := comments st @
                  [\<lparr>comment_text = nc_text d, comment_cardId = nc_cardId d,
                    comment_authorId = sock_user s\<rparr>]\<rparr>,
            [Broadcast (rm (room (nc_boardId d)) - {sock_id s})
               (New_comment \<lparr>comment_text = nc_text d, comment_cardId = nc_cardId d,
                              comment_authorId = sock_user s\<rparr> (sock_user s))])"
  using assms by (simp add: new_comment_def comment_create_def to_room_def)

theorem new_comment_any_text_witness:
  "list_ex (\<lambda>x. card_id x = ''c1'') (cards db0) \<and> ''alice'' \<in> set (users db0) \<and>
   new_comment db0 rooms0 alice \<lparr>nc_cardId = ''c1'', nc_text = ''  '', nc_boardId = ''42''\<rparr> =
     (db0\<lparr>comments := [\<lparr>comment_text = ''  '', comment_cardId = ''c1'',
                          comment_authorId = ''alice''\<rparr>]\<rparr>,
      [Broadcast {''sB''}
         (New_comment \<lparr>comment_text = ''  '', comment_cardId = ''c1'',
                        comment_authorId = ''alice''\<rparr> ''alice'')])"
proof -
  let ?d = "\<lparr>nc_cardId = ''c1'', nc_text = ''  '', nc_boardId = ''42''\<rparr>"
  have h1: "list_ex (\<lambda>x. card_id x = nc_cardId ?d) (cards db0)"
    by (simp add: db0_def)
  have h2: "sock_user alice \<in> set (users db0)"
    by (simp add: db0_def alice_def)
  show ?thesis
    using h1 h2 new_comment_any_text [OF h1 h2, of rooms0]
    by (simp add: db0_def alice_def rooms0_def room_def)
qed

section \<open>A move whose activity cannot be recorded\<close>

text \<open>
  When the activity of a move cannot be recorded (here the payload's \<open>fromListId\<close> names
  no list), the sender is sent the error event, after the card was moved and the move was
  broadcast.
\<close>

theorem card_moved_log_failure_reaches_sender:
  "card_moved db0 rooms0 alice (move_ok\<lparr>cm_fromListId := Some ''zz''\<rparr>) =
     (db0\<lparr>cards := [moved_card]\<rparr>,
      [Broadcast {''sB''} (Card_moved moved_card ''alice''),
       ToSelf (Error_event ''Failed to move card'')])"
  by (simp add: handler_defs example_defs)

text \<open>
  C6, as the handler has it. When the card update of a move succeeds and the recording of
  its activity fails, the update stays in the store and the move has been broadcast to
  the rest of the room; the failure reaches no other connection, and the sender alone is
  sent the error event "Failed to move card".
\<close>

theorem card_moved_log_failure_keeps_move:
  assumes "card_update st (cm_cardId d) (cm_toListId d) (cm_newPosition d) = Inr (c, st1)"
    and "log_card_moved st1 s d c = Inl e"
  shows "card_moved st rm s d =
           (st1, [Broadcast (rm (room (cm_boardId d)) - {sock_id s}) (Card_moved c (sock_user s)),
                  ToSelf (Error_event ''Failed to move card'')])"
  using assms by (simp add: card_moved_def to_room_def)

theorem card_moved_log_failure_keeps_move_witness:
  "card_update db0 ''c1'' ''l2'' (3 / 2) = Inr (moved_card, db0\<lparr>cards := [moved_card]\<rparr>) \<and>
   log_card_moved (db0\<lparr>cards := [moved_card]\<rparr>) alice (move_ok\<lparr>cm_fromListId := None\<rparr>)
     moved_card = Inl PrismaValidation \<and>
   card_moved db0 rooms0 alice (move_ok\<lparr>cm_fromListId := None\<rparr>) =
     (db0\<lparr>cards := [moved_card]\<rparr>,
      [Broadcast {''sB''} (Card_moved moved_card ''alice''),
       ToSelf (Error_event ''Failed to move card'')])"
proof -
  let ?d = "move_ok\<lparr>cm_fromListId := None\<rparr>"
  have h1: "card_update db0 (cm_cardId ?d) (cm_toListId ?d) (cm_newPosition ?d) =
              Inr (moved_card, db0\<lparr>cards := [moved_card]\<rparr>)"
    by (simp add: card_update_def Let_def example_defs)
  have h2: "log_card_moved (db0\<lparr>cards := [moved_card]\<rparr>) alice ?d moved_card =
              Inl PrismaValidation"
    by (simp add: log_card_moved_def list_findUnique_def move_ok_def)
  show ?thesis
    using h1 h2 card_moved_log_failure_keeps_move [OF h1 h2, of rooms0]
    by (simp add: move_ok_def alice_def rooms0_def room_def)
qed

section \<open>Leaving a board and disconnecting\<close>

text \<open>
  alice's socket is not in the room of board 42, and her leave-board still sends user-left
  to bob; when she is in the room and leaves twice, bob is sent user-left the second time
  too.
\<close>

theorem leave_board_repeats_user_left:
  "''sA'' \<notin> rooms1 (room ''42'') \<and>
   snd (leave_board rooms1 alice ''42'') = [Broadcast {''sB''} (User_left ''alice'')] \<and>
   snd (leave_board (fst (leave_board rooms0 alice ''42'')) alice ''42'') =
     [Broadcast {''sB''} (User_left ''alice'')]"
  by (simp add: handler_defs example_defs)

text \<open>
  C7, as the handlers have it. leave-board for a board the connection is not attached to
  raises no error and leaves every room as it was, but it sends user-left to all the
  sockets of that room each time it is issued. The disconnect handler emits nothing, the
  first time or again, so a closed connection causes no user-left at all.
\<close>

theorem leave_board_when_detached:
  assumes "sock_id s \<notin> rm (room boardId)"
  shows "leave_board rm s boardId =
           (rm, [Broadcast (rm (room boardId)) (User_left (sock_user s))]) \<and>
         snd (disconnect rm s) = [] \<and>
         snd (disconnect (fst (disconnect rm s)) s) = []"
  using assms by (simp add: leave_board_def to_room_def disconnect_def)

theorem leave_board_when_detached_witness:
  "sock_id alice \<notin> rooms1 (room ''42'') \<and>
   leave_board rooms1 alice ''42'' = (rooms1, [Broadcast {''sB''} (User_left ''alice'')]) \<and>
   snd (disconnect rooms1 alice) = [] \<and>
   snd (disconnect (fst (disconnect rooms1 alice)) alice) = []"
proof -
  have h: "sock_id alice \<notin> rooms1 (room ''42'')"
    by (simp add: rooms1_def room_def alice_def)
  show ?thesis
    using h leave_board_when_detached [of alice rooms1 "''42''"]
    by (simp add: rooms1_def room_def alice_def)
qed



section \<open>Ordering keys\<close>

text \<open>
  C9. For keys \<open>a < b\<close> the allocator returns a key strictly between them; with no lower
  bound it returns \<open>b - 1\<close>, with no upper bound \<open>a + 1\<close>, and on an empty list the
  baseline 1.
\<close>

theorem allocate_between:
  assumes "a < b"
  shows "a < allocate (Some a) (Some b) \<and> allocate (Some a) (Some b) < b \<and>
         allocate None (Some b) = b - 1 \<and> allocate (Some a) None = a + 1 \<and>
         allocate None None = 1"
  using assms by (simp add: allocate_def field_simps)

theorem allocate_between_witness:
  "(1::real) < 2 \<and> allocate (Some 1) (Some 2) = 3 / 2 \<and>
   1 < allocate (Some 1) (Some 2) \<and> allocate (Some 1) (Some 2) < 2 \<and>
   allocate None (Some 2) = 1 \<and> allocate (Some 1) None = 2 \<and> allocate None None = 1"
proof -
  have h: "(1::real) < 2" by simp
  show ?thesis
    using h allocate_between [OF h] by (simp add: allocate_def)
qed

section \<open>Deleting a board as a non-owner\<close>



text \<open>A delete that breaks a foreign key is answered with 500, never with 404.\<close>

lemma delete_cards_error:
  "delete_cards sch st P = Inl e \<Longrightarrow> e = P2003"
  by (auto simp: delete_cards_def Let_def split: if_splits)

lemma delete_lists_error:
  "delete_lists sch st P = Inl e \<Longrightarrow> e = P2003"
  by (auto simp: delete_lists_def Let_def split: if_splits sum.splits dest: delete_cards_error)

lemma delete_board_foreign_key:
  "card_deleteMany sch st boardId = Inl e \<Longrightarrow>
   delete_board sch st boardId userId = (st, Response 500 ''Failed to delete board'')"
  by (auto simp: delete_board_def card_deleteMany_def delete_failed_def
        dest: delete_cards_error)

lemma delete_board_foreign_key_lists:
  "card_deleteMany sch st boardId = Inr st1 \<Longrightarrow> list_deleteMany sch st1 boardId = Inl e \<Longrightarrow>
   delete_board sch st boardId userId = (st1, Response 500 ''Failed to delete board'')"
  by (auto simp: delete_board_def list_deleteMany_def delete_failed_def
        dest: delete_lists_error)

text \<open>A request that does not authenticate never reaches the handler.\<close>

lemma delete_board_route_unauthenticated:
  "delete_board_route sch st NoToken boardId = (st, Response 401 ''Access token required'') \<and>
   delete_board_route sch st BadToken boardId = (st, Response 403 ''Invalid or expired token'') \<and>
   (uid \<notin> set (users st) \<longrightarrow>
      delete_board_route sch st (Token uid) boardId = (st, Response 401 ''User not found''))"
  by (simp add: delete_board_route_def authenticateToken_def)

text \<open>Under a schema that cascades, the two fallible calls of the handler cannot fail.\<close>

lemma delete_cards_cascade:
  "comment_card sch = Cascade \<Longrightarrow> assignment_card sch = Cascade \<Longrightarrow>
   \<exists>st1. delete_cards sch st P = Inr st1"
  by (simp add: delete_cards_def Let_def)

lemma delete_lists_cascade:
  "comment_card sch = Cascade \<Longrightarrow> assignment_card sch = Cascade \<Longrightarrow>
   card_list sch = Cascade \<Longrightarrow> \<exists>st2. delete_lists sch st P = Inr st2"
  by (simp add: delete_lists_def delete_cards_def Let_def)




end
